theory Spec2Isabelle
  imports Complex_Main
begin

section \<open>BLAST find and extend: the tabular filter and the extension window\<close>

text \<open>
  A shallow embedding of \<^verbatim>\<open>tools/find_and_extend/find_and_extend.py\<close>: the generator
  \<^verbatim>\<open>extract_candidates\<close> (lines 179-198) and the loop of the script that consumes it
  (lines 201-213). The report is the list of lines that iterating over the open file
  gives, each with its line end. The interpreter's \<^verbatim>\<open>float\<close>, \<^verbatim>\<open>int\<close> and
  \<^verbatim>\<open>os.system\<close> are not code of the script: the model takes them as parameters, so
  every theorem holds whatever they return.
\<close>

subsection \<open>Python values\<close>

text \<open>
  A Python float by its value: a number, an infinity, or not-a-number. The order is that
  of IEEE 754: every comparison with not-a-number is false.
\<close>

datatype pyfloat = NaN | NegInf | Finite real | PosInf

fun float_lt :: "pyfloat \<Rightarrow> pyfloat \<Rightarrow> bool" where
  "float_lt NaN y = False"
| "float_lt x NaN = False"
| "float_lt x NegInf = False"
| "float_lt PosInf y = False"
| "float_lt NegInf y = True"
| "float_lt (Finite x) PosInf = True"
| "float_lt (Finite x) (Finite y) = (x < y)"

fun float_le :: "pyfloat \<Rightarrow> pyfloat \<Rightarrow> bool" where
  "float_le NaN y = False"
| "float_le x NaN = False"
| "float_le NegInf y = True"
| "float_le x PosInf = True"
| "float_le PosInf y = False"
| "float_le (Finite x) NegInf = False"
| "float_le (Finite x) (Finite y) = (x \<le> y)"

definition float_ge :: "pyfloat \<Rightarrow> pyfloat \<Rightarrow> bool" where
  "float_ge x y = float_le y x"

text \<open>The exceptions that end the run, each with its message.\<close>

datatype error =
    SystemExit string
  | ValueError string
  | AssertionError string

abbreviation NL :: char where "NL \<equiv> CHR 0x0A"
abbreviation TAB :: char where "TAB \<equiv> CHR 0x09"

text \<open>The format \<^verbatim>\<open>%i\<close>: decimal digits, with a minus sign below zero.\<close>

definition digit_char :: "nat \<Rightarrow> char" where
  "digit_char d = ''0123456789'' ! d"

fun str_nat :: "nat \<Rightarrow> string" where
  "str_nat n = (if n < 10 then [digit_char n] else str_nat (n div 10) @ [digit_char (n mod 10)])"

declare str_nat.simps [simp del]

definition str_int :: "int \<Rightarrow> string" where
  "str_int i = (if i < 0 then CHR ''-'' # str_nat (nat (- i)) else str_nat (nat i))"

subsection \<open>String methods\<close>

definition startswith :: "string \<Rightarrow> string \<Rightarrow> bool" where
  "startswith s p = (take (length p) s = p)"

text \<open>\<^verbatim>\<open>s.rstrip(c)\<close> removes every trailing occurrence of the character.\<close>

definition rstrip :: "char \<Rightarrow> string \<Rightarrow> string" where
  "rstrip c s = rev (dropWhile (\<lambda>x. x = c) (rev s))"

text \<open>\<^verbatim>\<open>s.split(sep)\<close>: the fields between separators, empty ones kept; never empty.\<close>

fun split_sep :: "char \<Rightarrow> string \<Rightarrow> string list" where
  "split_sep sep [] = [[]]"
| "split_sep sep (c # cs) =
     (if c = sep then [] # split_sep sep cs
      else (case split_sep sep cs of
              [] \<Rightarrow> [[c]]
            | p # ps \<Rightarrow> (c # p) # ps))"

text \<open>\<^verbatim>\<open>s.split()\<close>: the maximal runs of characters other than white space.\<close>

definition is_space :: "char \<Rightarrow> bool" where
  "is_space c = (c \<in> set [CHR '' '', TAB, NL, CHR 0x0B, CHR 0x0C, CHR 0x0D])"

fun split_ws_acc :: "string \<Rightarrow> string \<Rightarrow> string list" where
  "split_ws_acc w [] = (if w = [] then [] else [rev w])"
| "split_ws_acc w (c # cs) =
     (if is_space c then (if w = [] then split_ws_acc [] cs else rev w # split_ws_acc [] cs)
      else split_ws_acc (c # w) cs)"

definition split_ws :: "string \<Rightarrow> string list" where
  "split_ws s = split_ws_acc [] s"

subsection \<open>Options and the interpreter's builtins\<close>

text \<open>
  The values the script reads from the command line (lines 102-143) and uses in the
  loop. \<open>valid_options\<close> is what the checks of lines 107, 115, 132 and 141 let through.
\<close>

record options =
  database :: string
  min_identity :: pyfloat
  min_coverage :: pyfloat
  up_extend :: int
  down_extend :: int

definition valid_options :: "options \<Rightarrow> bool" where
  "valid_options opts =
     (float_le (Finite 0) (min_identity opts) \<and> float_le (min_identity opts) (Finite 100)
      \<and> float_le (Finite 0) (min_coverage opts) \<and> float_le (min_coverage opts) (Finite 100)
      \<and> \<not> up_extend opts < 0 \<and> \<not> down_extend opts < 0)"

text \<open>
  \<open>py_float\<close> and \<open>py_int\<close> give \<open>None\<close> where the builtin raises ValueError;
  \<open>os_system\<close> gives the return code of a command line.
\<close>

record builtins =
  py_float :: "string \<Rightarrow> pyfloat option"
  py_int :: "string \<Rightarrow> int option"
  os_system :: "string \<Rightarrow> nat"

definition run :: "builtins \<Rightarrow> string \<Rightarrow> error + unit" where
  "run bi cmd =
     (let return_code = os_system bi cmd
      in if return_code \<noteq> 0
         then Inl (SystemExit (''Error '' @ str_nat return_code @ '' from: '' @ cmd))
         else Inr ())"

subsection \<open>The generator \<^verbatim>\<open>extract_candidates\<close>\<close>

definition cols :: string where
  "cols = ''qseqid sseqid pident qcovhsp sstart send slen''"

definition c_query :: nat where "c_query = 0"
definition c_match :: nat where "c_match = 1"
definition c_identity :: nat where "c_identity = 2"
definition c_coverage :: nat where "c_coverage = 3"
definition c_sstart :: nat where "c_sstart = 4"
definition c_send :: nat where "c_send = 5"
definition c_slen :: nat where "c_slen = 6"

definition col_count :: nat where
  "col_count = length (split_ws cols)"

type_synonym candidate = "string \<times> int \<times> int \<times> int"

definition old_blast_message :: "nat \<Rightarrow> nat \<Rightarrow> string \<Rightarrow> string" where
  "old_blast_message expected got line =
     ''Old version of NCBI BLAST? Expected '' @ str_nat expected @ '' columns, got ''
     @ str_nat got @ '':'' @ [NL] @ line @ [NL]
     @ ''Note the qcovhsp field was only added in version 2.2.28'' @ [NL]"

text \<open>
  What one pass through the body of the \<^verbatim>\<open>for line in h\<close> loop does (lines 187-198):
  \<^verbatim>\<open>continue\<close>, leave through an exception, or \<^verbatim>\<open>yield\<close> a tuple. The conversions
  run in the order Python evaluates them: the coverage is not converted when the identity
  is already too low, the coordinates only for a line that passed both tests.
\<close>

datatype line_result = Continue | Raise error | Yielded candidate

definition candidate_of_line :: "builtins \<Rightarrow> options \<Rightarrow> string \<Rightarrow> line_result" where
  "candidate_of_line bi opts line =
     (if startswith line ''#'' then Continue
      else
        let parts = split_sep TAB (rstrip NL line) in
        if length parts \<noteq> col_count
        then Raise (SystemExit (old_blast_message col_count (length parts) line))
        else
          (case py_float bi (parts ! c_identity) of
             None \<Rightarrow> Raise (ValueError (parts ! c_identity))
           | Some identity \<Rightarrow>
               if float_lt identity (min_identity opts) then Continue
               else
                 (case py_float bi (parts ! c_coverage) of
                    None \<Rightarrow> Raise (ValueError (parts ! c_coverage))
                  | Some coverage \<Rightarrow>
                      if float_lt coverage (min_coverage opts) then Continue
                      else
                        (case py_int bi (parts ! c_sstart) of
                           None \<Rightarrow> Raise (ValueError (parts ! c_sstart))
                         | Some sstart \<Rightarrow>
                             (case py_int bi (parts ! c_send) of
                                None \<Rightarrow> Raise (ValueError (parts ! c_send))
                              | Some send \<Rightarrow>
                                  (case py_int bi (parts ! c_slen) of
                                     None \<Rightarrow> Raise (ValueError (parts ! c_slen))
                                   | Some slen \<Rightarrow>
                                       Yielded (parts ! c_match, sstart, send, slen)))))))"

text \<open>
  The generator as the sequence it produces: the tuples in the order of their lines, ended
  by the end of the file or by the exception that a line raises. The consumer below takes
  it from the front, so everything it does for a tuple happens before a later line is read.
\<close>

datatype 'a generator = Exhausted | Raised error | Yield 'a "'a generator"

fun extract_candidates :: "builtins \<Rightarrow> options \<Rightarrow> string list \<Rightarrow> candidate generator" where
  "extract_candidates bi opts [] = Exhausted"
| "extract_candidates bi opts (line # h) =
     (case candidate_of_line bi opts line of
        Continue \<Rightarrow> extract_candidates bi opts h
      | Raise e \<Rightarrow> Raised e
      | Yielded c \<Rightarrow> Yield c (extract_candidates bi opts h))"

subsection \<open>The loop of the script\<close>

text \<open>
  The state the loop changes: the counter, the lines printed on standard output, the
  entry and range of each \<^verbatim>\<open>blastdbcmd\<close> call made so far, and what the script
  itself wrote to standard error. What \<^verbatim>\<open>blastdbcmd\<close> prints is not part of the
  state, and the message of an exception that ends the run stays in the error value.
\<close>

record state =
  count :: nat
  stdout :: "string list"
  requests :: "(string \<times> int \<times> int) list"
  stderr :: "string list"

definition init_state :: state where
  "init_state = \<lparr>count = 0, stdout = [], requests = [], stderr = []\<rparr>"

definition print_candidate :: "candidate \<Rightarrow> string" where
  "print_candidate c =
     (case c of (idn, start, end', length') \<Rightarrow>
        idn @ '' '' @ str_int start @ '' '' @ str_int end' @ '' '' @ str_int length' @ [NL])"

definition blastdbcmd :: "string \<Rightarrow> string \<Rightarrow> int \<Rightarrow> int \<Rightarrow> string" where
  "blastdbcmd db idn req_start req_end =
     ''blastdbcmd -db '' @ db @ '' -entry '' @ [CHR 0x22] @ idn @ [CHR 0x22]
     @ '' -range '' @ [CHR 0x22] @ str_int req_start @ ''-'' @ str_int req_end @ [CHR 0x22]"

text \<open>
  The body of the loop (lines 203-211) for one tuple: count, print, assert, compute the
  window, call \<^verbatim>\<open>blastdbcmd\<close>. It returns the new state and the exception, if any.
\<close>

definition loop_body :: "builtins \<Rightarrow> options \<Rightarrow> candidate \<Rightarrow> state \<Rightarrow> state \<times> error option" where
  "loop_body bi opts c st =
     (case c of (idn, start, end', length') \<Rightarrow>
        let st1 = st\<lparr>count := count st + 1\<rparr>;
            st2 = st1\<lparr>stdout := stdout st1 @ [print_candidate (idn, start, end', length')]\<rparr>
        in if \<not> (1 \<le> start \<and> start < end' \<and> end' \<le> length')
           then (st2, Some (AssertionError ''Reverse strand?''))
           else
             let req_start = max 1 (start - up_extend opts);
                 req_end = min (end' + down_extend opts) length';
                 st3 = st2\<lparr>requests := requests st2 @ [(idn, req_start, req_end)]\<rparr>
             in (case run bi (blastdbcmd (database opts) idn req_start req_end) of
                   Inl e \<Rightarrow> (st3, Some e)
                 | Inr u \<Rightarrow> (st3, None)))"

fun main_loop :: "builtins \<Rightarrow> options \<Rightarrow> candidate generator \<Rightarrow> state \<Rightarrow> state \<times> error option" where
  "main_loop bi opts Exhausted st = (st, None)"
| "main_loop bi opts (Raised e) st = (st, Some e)"
| "main_loop bi opts (Yield c g) st =
     (case loop_body bi opts c st of
        (st', Some e) \<Rightarrow> (st', Some e)
      | (st', None) \<Rightarrow> main_loop bi opts g st')"

text \<open>
  Lines 201-213: the loop from a counter of zero, then the count on standard error. An
  exception leaves before that line is written.
\<close>

definition find_and_extend :: "builtins \<Rightarrow> options \<Rightarrow> string list \<Rightarrow> state \<times> error option" where
  "find_and_extend bi opts tabular =
     (case main_loop bi opts (extract_candidates bi opts tabular) init_state of
        (st, Some e) \<Rightarrow> (st, Some e)
      | (st, None) \<Rightarrow>
          (st\<lparr>stderr := stderr st @ [str_nat (count st) @ '' candidates'' @ [NL]]\<rparr>, None))"

subsection \<open>What a line contributes\<close>

text \<open>
  Two readings of \<open>candidate_of_line\<close>, used to state the results: whether the line
  is yielded, that is, is a record that passed the filter; and the window that lines
  207-208 compute for it.
\<close>

definition yields :: "builtins \<Rightarrow> options \<Rightarrow> string \<Rightarrow> bool" where
  "yields bi opts line = (case candidate_of_line bi opts line of Yielded c \<Rightarrow> True | _ \<Rightarrow> False)"

definition line_window :: "builtins \<Rightarrow> options \<Rightarrow> string \<Rightarrow> (string \<times> int \<times> int) option" where
  "line_window bi opts line =
     (case candidate_of_line bi opts line of
        Yielded (idn, start, end', length') \<Rightarrow>
          Some (idn, max 1 (start - up_extend opts), min (end' + down_extend opts) length')
      | _ \<Rightarrow> None)"

subsection \<open>The record of the specification\<close>

text \<open>
  The specification describes the same pass through a record type and three operations.
  These definitions follow its words (sections 3 and 4.1), not the code; the theorems
  below compare the code with them. \<open>parseLine\<close> gives a record for a line that is not a
  comment, has the seven fields and whose five numeric fields all convert.
\<close>

record TabularRecord =
  queryId :: string
  matchId :: string
  percentIdentity :: pyfloat
  queryCoverage :: pyfloat
  subjectStart :: int
  subjectEnd :: int
  subjectLength :: int

definition parseLine :: "builtins \<Rightarrow> string \<Rightarrow> TabularRecord option" where
  "parseLine bi line =
     (if startswith line ''#'' then None
      else
        (case split_sep TAB (rstrip NL line) of
           [q, m, i, c, s, e, l] \<Rightarrow>
             (case (py_float bi i, py_float bi c, py_int bi s, py_int bi e, py_int bi l) of
                (Some i', Some c', Some s', Some e', Some l') \<Rightarrow>
                  Some \<lparr>queryId = q, matchId = m, percentIdentity = i', queryCoverage = c',
                        subjectStart = s', subjectEnd = e', subjectLength = l'\<rparr>
              | _ \<Rightarrow> None)
         | _ \<Rightarrow> None))"

definition passesFilter :: "TabularRecord \<Rightarrow> options \<Rightarrow> bool" where
  "passesFilter r opts =
     (float_ge (percentIdentity r) (min_identity opts)
      \<and> float_ge (queryCoverage r) (min_coverage opts))"

definition computeWindow :: "TabularRecord \<Rightarrow> options \<Rightarrow> string \<times> int \<times> int" where
  "computeWindow r opts =
     (matchId r,
      max 1 (subjectStart r - up_extend opts),
      min (subjectEnd r + down_extend opts) (subjectLength r))"

subsection \<open>An instance of the builtins for running examples\<close>

text \<open>
  To run the model on a concrete report the builtins must be given. This instance reads
  an optional minus sign and decimal digits as \<^verbatim>\<open>int\<close> does, and a literal of the form
  digits, point, digits by its decimal value, which is what \<^verbatim>\<open>float\<close> returns
  whenever that value is a binary64 number (as for 96.0, 98.0 and 94.5); it reads
  \<^verbatim>\<open>nan\<close> as not-a-number. Every \<^verbatim>\<open>blastdbcmd\<close> call succeeds. It is used in
  examples only.
\<close>

definition digit_of :: "char \<Rightarrow> nat option" where
  "digit_of c = map_of (zip ''0123456789'' [0, 1, 2, 3, 4, 5, 6, 7, 8, 9]) c"

fun digits_val :: "nat \<Rightarrow> string \<Rightarrow> nat option" where
  "digits_val acc [] = Some acc"
| "digits_val acc (c # cs) =
     (case digit_of c of None \<Rightarrow> None | Some d \<Rightarrow> digits_val (10 * acc + d) cs)"

definition decimal_nat :: "string \<Rightarrow> nat option" where
  "decimal_nat s = (if s = [] then None else digits_val 0 s)"

definition decimal_int :: "string \<Rightarrow> int option" where
  "decimal_int s =
     (case s of
        [] \<Rightarrow> None
      | c # r \<Rightarrow> if c = CHR ''-'' then map_option (\<lambda>n. - int n) (decimal_nat r)
                 else map_option int (decimal_nat s))"

definition decimal_float :: "string \<Rightarrow> pyfloat option" where
  "decimal_float s =
     (if s = ''nan'' then Some NaN
      else
        let ip = takeWhile (\<lambda>c. c \<noteq> CHR ''.'') s;
            fp = drop 1 (dropWhile (\<lambda>c. c \<noteq> CHR ''.'') s)
        in (case (decimal_nat ip, decimal_nat fp) of
              (Some a, Some b) \<Rightarrow> Some (Finite (real a + real b / 10 ^ length fp))
            | _ \<Rightarrow> None))"

definition example_builtins :: builtins where
  "example_builtins = \<lparr>py_float = decimal_float, py_int = decimal_int, os_system = (\<lambda>cmd. 0)\<rparr>"

text \<open>The defaults of the command line: identity 95, coverage 95, 50 bases each way.\<close>

definition default_options :: options where
  "default_options =
     \<lparr>database = ''db'', min_identity = Finite 95, min_coverage = Finite 95,
      up_extend = 50, down_extend = 50\<rparr>"

text \<open>A line of a report: the fields joined by tabs, with its line end.\<close>

fun join_tabs :: "string list \<Rightarrow> string" where
  "join_tabs [] = []"
| "join_tabs [f] = f"
| "join_tabs (f # g # fs) = f @ TAB # join_tabs (g # fs)"

definition tsv :: "string list \<Rightarrow> string" where
  "tsv fs = join_tabs fs @ [NL]"

section \<open>Basic facts\<close>

lemma col_count_7: "col_count = 7"
  by (simp add: col_count_def split_ws_def cols_def is_space_def)

lemma str_nat_7: "str_nat 7 = ''7''"
  by (simp add: str_nat.simps digit_char_def)

lemmas c_defs = c_match_def c_identity_def c_coverage_def c_sstart_def c_send_def c_slen_def

lemmas example_defs =
  tsv_def startswith_def rstrip_def example_builtins_def default_options_def
  decimal_float_def decimal_int_def decimal_nat_def digit_of_def

text \<open>Between numbers, \<^verbatim>\<open>x < y\<close> is false exactly when \<^verbatim>\<open>x >= y\<close> is true.\<close>

lemma float_lt_ge: "x \<noteq> NaN \<Longrightarrow> y \<noteq> NaN \<Longrightarrow> float_lt x y = (\<not> float_ge x y)"
  by (cases x; cases y) (auto simp: float_ge_def)

lemma parseLine_SomeD:
  assumes "parseLine bi line = Some r"
  shows "\<not> startswith line ''#''"
    and "length (split_sep TAB (rstrip NL line)) = 7"
    and "split_sep TAB (rstrip NL line) ! 1 = matchId r"
    and "py_float bi (split_sep TAB (rstrip NL line) ! 2) = Some (percentIdentity r)"
    and "py_float bi (split_sep TAB (rstrip NL line) ! 3) = Some (queryCoverage r)"
    and "py_int bi (split_sep TAB (rstrip NL line) ! 4) = Some (subjectStart r)"
    and "py_int bi (split_sep TAB (rstrip NL line) ! 5) = Some (subjectEnd r)"
    and "py_int bi (split_sep TAB (rstrip NL line) ! 6) = Some (subjectLength r)"
  using assms
  by (auto simp: parseLine_def split: if_splits list.splits option.splits)

text \<open>On a line that parses into a record, the code's two tests decide alone.\<close>

lemma candidate_of_parsed:
  assumes "parseLine bi line = Some r"
  shows "candidate_of_line bi opts line =
           (if float_lt (percentIdentity r) (min_identity opts) then Continue
            else if float_lt (queryCoverage r) (min_coverage opts) then Continue
            else Yielded (matchId r, subjectStart r, subjectEnd r, subjectLength r))"
  using parseLine_SomeD [OF assms]
  by (simp add: candidate_of_line_def col_count_7 c_defs)

text \<open>
  A field that converts to not-a-number lies outside the data model (its fields range
  over 0 to 100). The code's test does not drop such a line, since \<^verbatim>\<open>nan < x\<close> is
  false, although \<^verbatim>\<open>nan >= x\<close> is false as well: the two tests agree on numbers only.
\<close>

lemma float_le_NaN: "float_le x NaN = False"
  by (cases x) simp_all

lemma not_a_number_is_yielded:
  assumes "parseLine bi line = Some r"
    and "percentIdentity r = NaN" and "queryCoverage r = NaN"
  shows "candidate_of_line bi opts line
           = Yielded (matchId r, subjectStart r, subjectEnd r, subjectLength r)"
    and "\<not> passesFilter r opts"
  using assms(2,3)
  by (simp_all add: candidate_of_parsed [OF assms(1)] passesFilter_def float_ge_def float_le_NaN)

text \<open>
  What the checks of the command line guarantee to the loop: thresholds that are numbers
  and extensions that are not negative. The defaults pass the checks.
\<close>

lemma valid_options_D:
  assumes "valid_options opts"
  shows "min_identity opts \<noteq> NaN" and "min_coverage opts \<noteq> NaN"
    and "0 \<le> up_extend opts" and "0 \<le> down_extend opts"
  using assms by (auto simp: valid_options_def)

lemma default_options_valid: "valid_options default_options"
  by (simp add: valid_options_def default_options_def)

text \<open>On a record that is yielded, the code's window is the specification's.\<close>

lemma line_window_computeWindow:
  assumes "parseLine bi line = Some r" and "yields bi opts line"
  shows "line_window bi opts line = Some (computeWindow r opts)"
  using assms(2)
  by (simp add: yields_def line_window_def computeWindow_def candidate_of_parsed [OF assms(1)]
        split: if_splits)

lemma parse_threshold_line:
  "parseLine example_builtins (tsv [''Q1'', ''S1'', ''95.0'', ''95.0'', ''10'', ''20'', ''1000''])
   = Some \<lparr>queryId = ''Q1'', matchId = ''S1'', percentIdentity = Finite 95,
           queryCoverage = Finite 95, subjectStart = 10, subjectEnd = 20,
           subjectLength = 1000\<rparr>"
  by (simp add: parseLine_def example_defs)

lemma loop_body_ok:
  assumes "1 \<le> start" "start < end'" "end' \<le> length'"
  shows "fst (loop_body bi opts (idn, start, end', length') st) =
           st\<lparr>count := count st + 1,
              stdout := stdout st @ [print_candidate (idn, start, end', length')],
              requests := requests st @ [(idn, max 1 (start - up_extend opts),
                                          min (end' + down_extend opts) length')]\<rparr>"
    and "snd (loop_body bi opts (idn, start, end', length') st) =
           (case run bi (blastdbcmd (database opts) idn (max 1 (start - up_extend opts))
                          (min (end' + down_extend opts) length')) of
              Inl e \<Rightarrow> Some e | Inr u \<Rightarrow> None)"
  using assms by (auto simp: loop_body_def Let_def split: sum.splits)

lemma loop_body_reversed:
  assumes "\<not> (1 \<le> start \<and> start < end' \<and> end' \<le> length')"
  shows "loop_body bi opts (idn, start, end', length') st =
           (st\<lparr>count := count st + 1,
               stdout := stdout st @ [print_candidate (idn, start, end', length')]\<rparr>,
            Some (AssertionError ''Reverse strand?''))"
  using assms by (auto simp: loop_body_def Let_def)

lemma extract_single:
  "extract_candidates bi opts [line] =
     (case candidate_of_line bi opts line of
        Continue \<Rightarrow> Exhausted | Raise e \<Rightarrow> Raised e | Yielded c \<Rightarrow> Yield c Exhausted)"
  by (simp split: line_result.splits)

lemma main_loop_append:
  "main_loop bi opts (extract_candidates bi opts (xs @ ys)) st =
     (case main_loop bi opts (extract_candidates bi opts xs) st of
        (st', Some e) \<Rightarrow> (st', Some e)
      | (st', None) \<Rightarrow> main_loop bi opts (extract_candidates bi opts ys) st')"
proof (induction xs arbitrary: st)
  case Nil
  show ?case by simp
next
  case (Cons x xs)
  show ?case
  proof (cases "candidate_of_line bi opts x")
    case Continue
    then show ?thesis using Cons.IH by simp
  next
    case (Raise e)
    then show ?thesis by simp
  next
    case (Yielded c)
    then show ?thesis using Cons.IH
      by (simp split: prod.splits option.splits)
  qed
qed

lemma main_loop_single_yield:
  assumes "candidate_of_line bi opts line = Yielded c"
  shows "main_loop bi opts (extract_candidates bi opts [line]) st = loop_body bi opts c st"
  using assms by (simp split: prod.splits option.splits)

lemma find_and_extend_fields:
  "count (fst (find_and_extend bi opts tabular))
     = count (fst (main_loop bi opts (extract_candidates bi opts tabular) init_state))"
  "stdout (fst (find_and_extend bi opts tabular))
     = stdout (fst (main_loop bi opts (extract_candidates bi opts tabular) init_state))"
  "requests (fst (find_and_extend bi opts tabular))
     = requests (fst (main_loop bi opts (extract_candidates bi opts tabular) init_state))"
  "snd (find_and_extend bi opts tabular)
     = snd (main_loop bi opts (extract_candidates bi opts tabular) init_state)"
  unfolding find_and_extend_def
  by (cases "main_loop bi opts (extract_candidates bi opts tabular) init_state";
      simp split: option.splits)+

lemma extract_skip:
  assumes "candidate_of_line bi opts line = Continue"
  shows "extract_candidates bi opts (before @ line # rest) = extract_candidates bi opts (before @ rest)"
  using assms by (induction before) (simp_all split: line_result.splits)

lemma reversed_line:
  "candidate_of_line example_builtins default_options
     (tsv [''Q1'', ''S1'', ''96.0'', ''98.0'', ''20'', ''10'', ''1000''])
   = Yielded (''S1'', 20, 10, 1000)"
  by (simp add: candidate_of_line_def example_defs col_count_7 c_defs)

lemma loop_body_stderr: "stderr (fst (loop_body bi opts c st)) = stderr st"
  by (cases c) (simp add: loop_body_def Let_def split: sum.splits)

lemma main_loop_stderr: "stderr (fst (main_loop bi opts g st)) = stderr st"
proof (induction g arbitrary: st)
  case (Yield c g)
  show ?case
  proof (cases "loop_body bi opts c st")
    case (Pair st' r)
    then have "stderr st' = stderr st"
      using loop_body_stderr [of bi opts c st] by simp
    then show ?thesis using Pair Yield.IH [of st'] by (simp split: option.splits)
  qed
qed simp_all

lemma plain_line:
  "candidate_of_line example_builtins default_options
     (tsv [''Q1'', ''S1'', ''96.0'', ''98.0'', ''10'', ''20'', ''1000''])
   = Yielded (''S1'', 10, 20, 1000)"
  by (simp add: candidate_of_line_def example_defs col_count_7 c_defs)

lemma run_example_ok: "run example_builtins cmd = Inr ()"
  by (simp add: run_def example_builtins_def)

lemma print_plain: "print_candidate (''S1'', 10, 20, 1000) = ''S1 10 20 1000'' @ [NL]"
  by (simp add: print_candidate_def str_int_def str_nat.simps digit_char_def)

lemma run_plain_line:
  "main_loop example_builtins default_options
     (extract_candidates example_builtins default_options
        [tsv [''Q1'', ''S1'', ''96.0'', ''98.0'', ''10'', ''20'', ''1000'']]) init_state
   = (\<lparr>count = 1, stdout = [''S1 10 20 1000'' @ [NL]], requests = [(''S1'', 1, 70)],
       stderr = []\<rparr>, None)"
  unfolding main_loop_single_yield [OF plain_line]
  by (simp add: loop_body_def run_example_ok print_plain init_state_def default_options_def)

lemma loop_body_None:
  assumes "loop_body bi opts c st = (st', None)"
  shows "count st' = count st + 1" and "length (requests st') = length (requests st) + 1"
  using assms
  by (cases c; auto simp: loop_body_def Let_def split: if_splits sum.splits)+

lemma main_loop_counts:
  assumes "main_loop bi opts (extract_candidates bi opts tabular) st = (st', None)"
  shows "count st' = count st + length (filter (yields bi opts) tabular)
       \<and> length (requests st') = length (requests st) + length (filter (yields bi opts) tabular)"
  using assms
proof (induction tabular arbitrary: st)
  case Nil
  then show ?case by simp
next
  case (Cons x xs)
  show ?case
  proof (cases "candidate_of_line bi opts x")
    case Continue
    then show ?thesis using Cons by (simp add: yields_def)
  next
    case (Raise e)
    then show ?thesis using Cons.prems by simp
  next
    case (Yielded c)
    obtain s1 r1 where b: "loop_body bi opts c st = (s1, r1)" by (cases "loop_body bi opts c st")
    with Cons.prems Yielded have r1: "r1 = None"
      and m: "main_loop bi opts (extract_candidates bi opts xs) s1 = (st', None)"
      by (auto split: option.splits)
    from loop_body_None [OF b [unfolded r1]] Cons.IH [OF m] Yielded
    show ?thesis by (simp add: yields_def)
  qed
qed

lemma loop_body_indep:
  "\<exists>ws r. \<forall>st. requests (fst (loop_body bi opts c st)) = requests st @ ws
               \<and> snd (loop_body bi opts c st) = r"
proof (cases c)
  case (fields idn start end' length')
  show ?thesis
  proof (cases "1 \<le> start \<and> start < end' \<and> end' \<le> length'")
    case True
    then show ?thesis unfolding fields
      by (intro exI allI) (simp add: loop_body_ok)
  next
    case False
    show ?thesis unfolding fields loop_body_reversed [OF False]
      by (intro exI [of _ "[]"] exI allI) simp
  qed
qed

lemma main_loop_indep:
  "\<exists>ws r. \<forall>st. requests (fst (main_loop bi opts g st)) = requests st @ ws
               \<and> snd (main_loop bi opts g st) = r"
proof (induction g)
  case Exhausted
  show ?case by (intro exI [of _ "[]"] exI [of _ None]) simp
next
  case (Raised e)
  show ?case by (intro exI [of _ "[]"] exI [of _ "Some e"]) simp
next
  case (Yield c g)
  obtain w1 r1 where b: "\<And>st. requests (fst (loop_body bi opts c st)) = requests st @ w1"
      "\<And>st. snd (loop_body bi opts c st) = r1"
    using loop_body_indep [of bi opts c] by blast
  obtain w2 r2 where m: "\<And>st. requests (fst (main_loop bi opts g st)) = requests st @ w2"
      "\<And>st. snd (main_loop bi opts g st) = r2"
    using Yield.IH by blast
  show ?case
  proof (cases r1)
    case None
    have "requests (fst (main_loop bi opts (Yield c g) st)) = requests st @ (w1 @ w2)
          \<and> snd (main_loop bi opts (Yield c g) st) = r2" for st
      using b(1) [of st] b(2) [of st] m(1) [of "fst (loop_body bi opts c st)"]
        m(2) [of "fst (loop_body bi opts c st)"] None
      by (cases "loop_body bi opts c st") simp
    then show ?thesis by blast
  next
    case (Some e)
    have "requests (fst (main_loop bi opts (Yield c g) st)) = requests st @ w1
          \<and> snd (main_loop bi opts (Yield c g) st) = Some e" for st
      using b(1) [of st] b(2) [of st] Some
      by (cases "loop_body bi opts c st") simp
    then show ?thesis by blast
  qed
qed

lemma main_loop_windows:
  assumes "main_loop bi opts (extract_candidates bi opts tabular) st = (st', None)"
  shows "requests st' = requests st @ List.map_filter (line_window bi opts) tabular"
  using assms
proof (induction tabular arbitrary: st)
  case Nil
  then show ?case by (simp add: List.map_filter_simps)
next
  case (Cons x xs)
  show ?case
  proof (cases "candidate_of_line bi opts x")
    case Continue
    then show ?thesis using Cons by (simp add: line_window_def List.map_filter_simps)
  next
    case (Raise e)
    then show ?thesis using Cons.prems by simp
  next
    case (Yielded c)
    obtain idn start end' length' where c: "c = (idn, start, end', length')" by (cases c)
    obtain s1 r1 where b: "loop_body bi opts c st = (s1, r1)" by (cases "loop_body bi opts c st")
    with Cons.prems Yielded have r1: "r1 = None"
      and m: "main_loop bi opts (extract_candidates bi opts xs) s1 = (st', None)"
      by (auto split: option.splits)
    have ok: "1 \<le> start \<and> start < end' \<and> end' \<le> length'"
      using b r1 loop_body_reversed [of start end' length' bi opts idn st] c by auto
    then have "requests s1 = requests st @ [(idn, max 1 (start - up_extend opts),
                                          min (end' + down_extend opts) length')]"
      using loop_body_ok(1) [of start end' length' bi opts idn st] b c by simp
    with Cons.IH [OF m] Yielded c
    show ?thesis by (simp add: line_window_def List.map_filter_simps)
  qed
qed

lemma candidate_never_asserts: "candidate_of_line bi opts line \<noteq> Raise (AssertionError m)"
  by (simp add: candidate_of_line_def Let_def split: option.splits)

lemma loop_body_asserts:
  "snd (loop_body bi opts (idn, start, end', length') st) = Some (AssertionError m)
     \<longleftrightarrow> \<not> (1 \<le> start \<and> start < end' \<and> end' \<le> length') \<and> m = ''Reverse strand?''"
  by (auto simp: loop_body_def Let_def run_def split: sum.splits)

lemma first_fatal_line:
  assumes "snd (main_loop bi opts (extract_candidates bi opts tabular) st) = Some e"
  shows "\<exists>before line rest st'. tabular = before @ line # rest
           \<and> main_loop bi opts (extract_candidates bi opts before) st = (st', None)
           \<and> snd (main_loop bi opts (extract_candidates bi opts [line]) st') = Some e"
  using assms
proof (induction tabular arbitrary: st)
  case Nil
  then show ?case by simp
next
  case (Cons x xs)
  show ?case
  proof (cases "main_loop bi opts (extract_candidates bi opts [x]) st")
    case (Pair s1 r1)
    show ?thesis
    proof (cases r1)
      case (Some e1)
      have "main_loop bi opts (extract_candidates bi opts ([x] @ xs)) st = (s1, Some e1)"
        unfolding main_loop_append using Pair Some by simp
      with Cons.prems have "e1 = e" by simp
      with Pair Some have "snd (main_loop bi opts (extract_candidates bi opts [x]) st) = Some e"
        by simp
      then have "x # xs = [] @ x # xs
           \<and> main_loop bi opts (extract_candidates bi opts []) st = (st, None)
           \<and> snd (main_loop bi opts (extract_candidates bi opts [x]) st) = Some e"
        by simp
      then show ?thesis by blast
    next
      case None
      have a: "main_loop bi opts (extract_candidates bi opts ([x] @ ys)) st
            = main_loop bi opts (extract_candidates bi opts ys) s1" for ys
        unfolding main_loop_append using Pair None by simp
      with Cons.prems have "snd (main_loop bi opts (extract_candidates bi opts xs) s1) = Some e"
        using a [of xs] by simp
      from Cons.IH [OF this] obtain before line rest st' where
        b: "xs = before @ line # rest"
          "main_loop bi opts (extract_candidates bi opts before) s1 = (st', None)"
          "snd (main_loop bi opts (extract_candidates bi opts [line]) st') = Some e"
        by blast
      have "x # xs = (x # before) @ line # rest
           \<and> main_loop bi opts (extract_candidates bi opts (x # before)) st = (st', None)
           \<and> snd (main_loop bi opts (extract_candidates bi opts [line]) st') = Some e"
        using b a [of before] by simp
      then show ?thesis by blast
    qed
  qed
qed

lemma single_line_asserts:
  "snd (main_loop bi opts (extract_candidates bi opts [line]) st) = Some (AssertionError m)
     \<longleftrightarrow> (\<exists>idn start end' length'.
            candidate_of_line bi opts line = Yielded (idn, start, end', length')
            \<and> \<not> (1 \<le> start \<and> start < end' \<and> end' \<le> length') \<and> m = ''Reverse strand?'')"
proof (cases "candidate_of_line bi opts line")
  case Continue
  then show ?thesis by simp
next
  case (Raise e)
  then show ?thesis using candidate_never_asserts [of bi opts line m] by auto
next
  case (Yielded c)
  obtain idn start end' length' where c: "c = (idn, start, end', length')" by (cases c)
  have "snd (main_loop bi opts (extract_candidates bi opts [line]) st)
          = snd (loop_body bi opts (idn, start, end', length') st)"
    unfolding main_loop_single_yield [OF Yielded] c ..
  then show ?thesis using Yielded c loop_body_asserts [of bi opts idn start end' length' st m]
    by simp
qed

lemma loop_body_plain:
  "loop_body example_builtins default_options (''S1'', 10, 20, 1000) st
   = (st\<lparr>count := count st + 1, stdout := stdout st @ [''S1 10 20 1000'' @ [NL]],
         requests := requests st @ [(''S1'', 1, 70)]\<rparr>, None)"
  by (simp add: loop_body_def run_example_ok print_plain default_options_def)

lemma comment_example:
  "candidate_of_line example_builtins default_options (''# BLASTN 2.5.0+'' @ [NL]) = Continue"
  by (simp add: candidate_of_line_def startswith_def)

lemma parse_low_line:
  "parseLine example_builtins (tsv [''Q1'', ''S1'', ''90.0'', ''98.0'', ''20'', ''10'', ''1000''])
   = Some \<lparr>queryId = ''Q1'', matchId = ''S1'', percentIdentity = Finite 90,
           queryCoverage = Finite 98, subjectStart = 20, subjectEnd = 10,
           subjectLength = 1000\<rparr>"
  by (simp add: parseLine_def example_defs)

lemma low_line:
  "candidate_of_line example_builtins default_options (tsv [''Q1'', ''S1'', ''90.0'', ''98.0'', ''20'', ''10'', ''1000'']) = Continue"
  by (simp add: candidate_of_parsed [OF parse_low_line] default_options_def)

lemma run_example_report:
  "find_and_extend example_builtins default_options [(''# BLASTN 2.5.0+'' @ [NL]), tsv [''Q1'', ''S1'', ''96.0'', ''98.0'', ''10'', ''20'', ''1000''], tsv [''Q1'', ''S1'', ''90.0'', ''98.0'', ''20'', ''10'', ''1000'']]
   = (\<lparr>count = 1, stdout = [''S1 10 20 1000'' @ [NL]], requests = [(''S1'', 1, 70)],
       stderr = [''1 candidates'' @ [NL]]\<rparr>, None)"
proof -
  have g: "extract_candidates example_builtins default_options
             [(''# BLASTN 2.5.0+'' @ [NL]), tsv [''Q1'', ''S1'', ''96.0'', ''98.0'', ''10'', ''20'', ''1000''], tsv [''Q1'', ''S1'', ''90.0'', ''98.0'', ''20'', ''10'', ''1000'']]
           = Yield (''S1'', 10, 20, 1000) Exhausted"
    by (simp only: extract_candidates.simps comment_example plain_line low_line
          line_result.case)
  show ?thesis
    unfolding find_and_extend_def g
    by (simp add: loop_body_plain init_state_def str_nat.simps digit_char_def)
qed

section \<open>The claims\<close>

text \<open>
  C1. A tabular record passes the filter if and only if its percent identity is at least
  the minimum identity and its query coverage is at least the minimum coverage, both
  comparisons inclusive. The code tests \<^verbatim>\<open>float(..) < min_identity or float(..) < min_coverage\<close>
  and drops the line when the test holds; for numbers that is the negation of the two
  inclusive comparisons. The fields of a record are numbers (the data model gives them the
  range 0 to 100), and so are the thresholds, which lines 107 and 115 confine to 0..100.
\<close>

theorem filter_is_inclusive:
  assumes "parseLine bi line = Some r"
    and "percentIdentity r \<noteq> NaN" and "queryCoverage r \<noteq> NaN"
    and "min_identity opts \<noteq> NaN" and "min_coverage opts \<noteq> NaN"
  shows "candidate_of_line bi opts line =
           (if passesFilter r opts
            then Yielded (matchId r, subjectStart r, subjectEnd r, subjectLength r)
            else Continue)"
  using assms(2-) by (simp add: candidate_of_parsed [OF assms(1)] float_lt_ge passesFilter_def)

text \<open>At the boundary: identity 95.0 and coverage 95.0 against thresholds of 95.\<close>

theorem filter_is_inclusive_witness:
  "parseLine example_builtins (tsv [''Q1'', ''S1'', ''95.0'', ''95.0'', ''10'', ''20'', ''1000''])
     = Some \<lparr>queryId = ''Q1'', matchId = ''S1'', percentIdentity = Finite 95,
             queryCoverage = Finite 95, subjectStart = 10, subjectEnd = 20,
             subjectLength = 1000\<rparr>
   \<and> min_identity default_options = Finite 95 \<and> min_coverage default_options = Finite 95
   \<and> candidate_of_line example_builtins default_options
        (tsv [''Q1'', ''S1'', ''95.0'', ''95.0'', ''10'', ''20'', ''1000''])
      = Yielded (''S1'', 10, 20, 1000)"
  using filter_is_inclusive [OF parse_threshold_line, of default_options]
  by (simp add: parse_threshold_line passesFilter_def float_ge_def default_options_def)

text \<open>
  C2. For a record that passes the filter, the window requested from \<^verbatim>\<open>blastdbcmd\<close> is
  the entry with the range from \<open>max 1 (start - up)\<close> to \<open>min (end + down) length\<close>; the
  coordinates are those of the data model, which the script asserts before it computes.
  In particular the line \<^verbatim>\<open>Q1 S1 96.0 98.0 10 20 1000\<close> (tab-separated), with thresholds
  of 95 and extensions of 50, gives the one window \<open>(S1, 1, 70)\<close>, whatever the builtins
  do elsewhere, provided they read these five literals as Python does.
\<close>

theorem window_formula:
  "(candidate_of_line bi opts line = Yielded (idn, start, end', length')
      \<and> 1 \<le> start \<and> start < end' \<and> end' \<le> length'
    \<longrightarrow> requests (fst (main_loop bi opts (extract_candidates bi opts [line]) st))
          = requests st @ [(idn, max 1 (start - up_extend opts),
                            min (end' + down_extend opts) length')])
   \<and> (py_float bi ''96.0'' = Some (Finite 96) \<and> py_float bi ''98.0'' = Some (Finite 98)
      \<and> py_int bi ''10'' = Some 10 \<and> py_int bi ''20'' = Some 20
      \<and> py_int bi ''1000'' = Some 1000
      \<and> min_identity opts = Finite 95 \<and> min_coverage opts = Finite 95
      \<and> up_extend opts = 50 \<and> down_extend opts = 50
    \<longrightarrow> requests (fst (find_and_extend bi opts
                         [tsv [''Q1'', ''S1'', ''96.0'', ''98.0'', ''10'', ''20'', ''1000'']]))
          = [(''S1'', 1, 70)])"
proof (intro conjI impI)
  assume a: "candidate_of_line bi opts line = Yielded (idn, start, end', length')
      \<and> 1 \<le> start \<and> start < end' \<and> end' \<le> length'"
  then have y: "candidate_of_line bi opts line = Yielded (idn, start, end', length')"
    and ok: "1 \<le> start" "start < end'" "end' \<le> length'"
    by simp_all
  show "requests (fst (main_loop bi opts (extract_candidates bi opts [line]) st))
          = requests st @ [(idn, max 1 (start - up_extend opts),
                            min (end' + down_extend opts) length')]"
    unfolding main_loop_single_yield [OF y] loop_body_ok(1) [OF ok] by simp
next
  let ?line = "tsv [''Q1'', ''S1'', ''96.0'', ''98.0'', ''10'', ''20'', ''1000'']"
  assume b: "py_float bi ''96.0'' = Some (Finite 96) \<and> py_float bi ''98.0'' = Some (Finite 98)
      \<and> py_int bi ''10'' = Some 10 \<and> py_int bi ''20'' = Some 20
      \<and> py_int bi ''1000'' = Some 1000
      \<and> min_identity opts = Finite 95 \<and> min_coverage opts = Finite 95
      \<and> up_extend opts = 50 \<and> down_extend opts = 50"
  then have c: "candidate_of_line bi opts ?line = Yielded (''S1'', 10, 20, 1000)"
    by (simp add: candidate_of_line_def tsv_def startswith_def rstrip_def col_count_7 c_defs)
  have "requests (fst (main_loop bi opts (extract_candidates bi opts [?line]) init_state))
          = [(''S1'', 1, 70)]"
    unfolding main_loop_single_yield [OF c] using b
    by (simp add: loop_body_ok(1) init_state_def)
  then show "requests (fst (find_and_extend bi opts [?line])) = [(''S1'', 1, 70)]"
    unfolding find_and_extend_fields(3) .
qed


theorem window_formula_witness:
  "candidate_of_line example_builtins default_options
     (tsv [''Q1'', ''S1'', ''96.0'', ''98.0'', ''10'', ''20'', ''1000''])
     = Yielded (''S1'', 10, 20, 1000)
   \<and> requests (fst (main_loop example_builtins default_options
        (extract_candidates example_builtins default_options
           [tsv [''Q1'', ''S1'', ''96.0'', ''98.0'', ''10'', ''20'', ''1000'']]) init_state))
      = [(''S1'', 1, 70)]
   \<and> py_float example_builtins ''96.0'' = Some (Finite 96)
   \<and> py_float example_builtins ''98.0'' = Some (Finite 98)
   \<and> py_int example_builtins ''10'' = Some 10
   \<and> py_int example_builtins ''20'' = Some 20
   \<and> py_int example_builtins ''1000'' = Some 1000
   \<and> requests (fst (find_and_extend example_builtins default_options
        [tsv [''Q1'', ''S1'', ''96.0'', ''98.0'', ''10'', ''20'', ''1000'']]))
      = [(''S1'', 1, 70)]"
proof -
  have c: "candidate_of_line example_builtins default_options
     (tsv [''Q1'', ''S1'', ''96.0'', ''98.0'', ''10'', ''20'', ''1000''])
     = Yielded (''S1'', 10, 20, 1000)"
    by (simp add: candidate_of_line_def example_defs col_count_7 c_defs)
  have b: "py_float example_builtins ''96.0'' = Some (Finite 96)"
    "py_float example_builtins ''98.0'' = Some (Finite 98)"
    "py_int example_builtins ''10'' = Some 10"
    "py_int example_builtins ''20'' = Some 20"
    "py_int example_builtins ''1000'' = Some 1000"
    by (simp_all add: example_defs)
  have o: "min_identity default_options = Finite 95" "min_coverage default_options = Finite 95"
    "up_extend default_options = 50" "down_extend default_options = 50"
    by (simp_all add: default_options_def)
  show ?thesis
    using window_formula [of example_builtins default_options
        "tsv [''Q1'', ''S1'', ''96.0'', ''98.0'', ''10'', ''20'', ''1000'']"
        "''S1''" 10 20 1000 init_state] c b o
    by (simp add: init_state_def)
qed

text \<open>
  C3. For an accepted record with \<open>1 \<le> start < end \<le> length\<close> and extensions that are
  not negative, the window requested satisfies
  \<open>1 \<le> requestedStart \<le> requestedEnd \<le> subjectLength\<close>.
\<close>

theorem window_within_subject:
  assumes "candidate_of_line bi opts line = Yielded (idn, start, end', length')"
    and "1 \<le> start" and "start < end'" and "end' \<le> length'"
    and "0 \<le> up_extend opts" and "0 \<le> down_extend opts"
  shows "\<exists>req_start req_end.
           requests (fst (main_loop bi opts (extract_candidates bi opts [line]) st))
             = requests st @ [(idn, req_start, req_end)]
           \<and> 1 \<le> req_start \<and> req_start \<le> req_end \<and> req_end \<le> length'"
proof (intro exI conjI)
  show "requests (fst (main_loop bi opts (extract_candidates bi opts [line]) st))
          = requests st @ [(idn, max 1 (start - up_extend opts),
                            min (end' + down_extend opts) length')]"
    unfolding main_loop_single_yield [OF assms(1)] loop_body_ok(1) [OF assms(2-4)] by simp
  show "1 \<le> max 1 (start - up_extend opts)" by simp
  show "max 1 (start - up_extend opts) \<le> min (end' + down_extend opts) length'"
    using assms(2-) by simp
  show "min (end' + down_extend opts) length' \<le> length'" by simp
qed

theorem window_within_subject_witness:
  "candidate_of_line example_builtins default_options (tsv [''Q1'', ''S1'', ''96.0'', ''98.0'', ''10'', ''20'', ''1000'']) = Yielded (''S1'', 10, 20, 1000)
   \<and> 0 \<le> up_extend default_options \<and> 0 \<le> down_extend default_options
   \<and> (\<exists>req_start req_end.
         requests (fst (main_loop example_builtins default_options
                     (extract_candidates example_builtins default_options [tsv [''Q1'', ''S1'', ''96.0'', ''98.0'', ''10'', ''20'', ''1000'']]) init_state))
           = requests init_state @ [(''S1'', req_start, req_end)]
         \<and> 1 \<le> req_start \<and> req_start \<le> req_end \<and> req_end \<le> 1000)"
proof -
  have u: "0 \<le> up_extend default_options" "0 \<le> down_extend default_options"
    by (simp_all add: default_options_def)
  have v: "1 \<le> (10::int)" "(10::int) < 20" "(20::int) \<le> 1000"
    by simp_all
  show ?thesis
    using window_within_subject [OF plain_line v u, of init_state] plain_line u by blast
qed

text \<open>
  C4. A line that is not a comment and does not have exactly 7 tab-separated fields ends
  the run through \<^verbatim>\<open>sys.exit\<close>, with a message that gives the expected count, the
  count found and the line. The lines after it are not read, the counter is not changed,
  and the count is not written to standard error: the run ends in the state that the
  lines before it left.
\<close>

theorem malformed_line_halts:
  assumes "\<not> startswith line ''#''"
    and "length (split_sep TAB (rstrip NL line)) = n" and "n \<noteq> 7"
  shows "candidate_of_line bi opts line =
           Raise (SystemExit (''Old version of NCBI BLAST? Expected 7 columns, got ''
             @ str_nat n @ '':'' @ [NL] @ line @ [NL]
             @ ''Note the qcovhsp field was only added in version 2.2.28'' @ [NL]))
    \<and> main_loop bi opts (extract_candidates bi opts (line # rest)) st =
           (st, Some (SystemExit (old_blast_message 7 n line)))
    \<and> (main_loop bi opts (extract_candidates bi opts before) init_state = (st', None) \<longrightarrow>
         find_and_extend bi opts (before @ line # rest) =
           (st', Some (SystemExit (old_blast_message 7 n line))))"
proof (intro conjI impI)
  have r: "candidate_of_line bi opts line = Raise (SystemExit (old_blast_message 7 n line))"
    using assms by (simp add: candidate_of_line_def col_count_7)
  then show "candidate_of_line bi opts line =
           Raise (SystemExit (''Old version of NCBI BLAST? Expected 7 columns, got ''
             @ str_nat n @ '':'' @ [NL] @ line @ [NL]
             @ ''Note the qcovhsp field was only added in version 2.2.28'' @ [NL]))"
    by (simp add: old_blast_message_def str_nat_7)
  have m: "main_loop bi opts (extract_candidates bi opts (line # rest)) s =
           (s, Some (SystemExit (old_blast_message 7 n line)))" for s
    using r by simp
  show "main_loop bi opts (extract_candidates bi opts (line # rest)) st =
           (st, Some (SystemExit (old_blast_message 7 n line)))"
    by (rule m)
  assume "main_loop bi opts (extract_candidates bi opts before) init_state = (st', None)"
  then show "find_and_extend bi opts (before @ line # rest) =
           (st', Some (SystemExit (old_blast_message 7 n line)))"
    by (simp add: find_and_extend_def main_loop_append m del: extract_candidates.simps)
qed

theorem malformed_line_halts_witness:
  "\<not> startswith (tsv [''Q1'', ''S1'', ''96.0'', ''10'', ''20'', ''1000'']) ''#''
   \<and> length (split_sep TAB (rstrip NL (tsv [''Q1'', ''S1'', ''96.0'', ''10'', ''20'', ''1000'']))) = 6
   \<and> main_loop example_builtins default_options
        (extract_candidates example_builtins default_options [tsv [''Q1'', ''S1'', ''96.0'', ''98.0'', ''10'', ''20'', ''1000'']]) init_state
      = (\<lparr>count = 1, stdout = [''S1 10 20 1000'' @ [NL]], requests = [(''S1'', 1, 70)],
          stderr = []\<rparr>, None)
   \<and> find_and_extend example_builtins default_options
        ([tsv [''Q1'', ''S1'', ''96.0'', ''98.0'', ''10'', ''20'', ''1000'']] @ tsv [''Q1'', ''S1'', ''96.0'', ''10'', ''20'', ''1000''] # [tsv [''Q1'', ''S1'', ''96.0'', ''98.0'', ''10'', ''20'', ''1000'']])
      = (\<lparr>count = 1, stdout = [''S1 10 20 1000'' @ [NL]], requests = [(''S1'', 1, 70)],
          stderr = []\<rparr>,
         Some (SystemExit (old_blast_message 7 6
                 (tsv [''Q1'', ''S1'', ''96.0'', ''10'', ''20'', ''1000'']))))"
proof -
  have a: "\<not> startswith (tsv [''Q1'', ''S1'', ''96.0'', ''10'', ''20'', ''1000'']) ''#''"
    by (simp add: tsv_def startswith_def)
  have b: "length (split_sep TAB (rstrip NL (tsv [''Q1'', ''S1'', ''96.0'', ''10'', ''20'', ''1000'']))) = 6"
    by (simp add: tsv_def rstrip_def)
  have c: "(6::nat) \<noteq> 7" by simp
  show ?thesis
    using malformed_line_halts [OF a b c, of example_builtins default_options "[tsv [''Q1'', ''S1'', ''96.0'', ''98.0'', ''10'', ''20'', ''1000'']]"
        init_state "[tsv [''Q1'', ''S1'', ''96.0'', ''98.0'', ''10'', ''20'', ''1000'']]"
        "\<lparr>count = 1, stdout = [''S1 10 20 1000'' @ [NL]], requests = [(''S1'', 1, 70)],
          stderr = []\<rparr>"] a b run_plain_line
    by simp
qed

text \<open>
  C5. A record that passes the filter but does not satisfy \<open>1 \<le> start < end \<le> length\<close>
  (start 20 and end 10, say) fails the assertion of line 205, which stands before the
  window is computed: the run ends with the AssertionError, no \<^verbatim>\<open>blastdbcmd\<close> call is
  made for the record, no later line is read and no count is written.
\<close>

theorem reversed_record_halts:
  assumes "candidate_of_line bi opts line = Yielded (idn, start, end', length')"
    and "\<not> (1 \<le> start \<and> start < end' \<and> end' \<le> length')"
  shows "main_loop bi opts (extract_candidates bi opts (line # rest)) st =
           (st\<lparr>count := count st + 1,
               stdout := stdout st @ [print_candidate (idn, start, end', length')]\<rparr>,
            Some (AssertionError ''Reverse strand?''))
    \<and> (main_loop bi opts (extract_candidates bi opts before) init_state = (st', None) \<longrightarrow>
         snd (find_and_extend bi opts (before @ line # rest)) =
           Some (AssertionError ''Reverse strand?'')
         \<and> requests (fst (find_and_extend bi opts (before @ line # rest))) = requests st'
         \<and> stderr (fst (find_and_extend bi opts (before @ line # rest))) = [])"
proof (intro conjI impI)
  have m: "main_loop bi opts (extract_candidates bi opts (line # rest)) s =
           (s\<lparr>count := count s + 1,
               stdout := stdout s @ [print_candidate (idn, start, end', length')]\<rparr>,
            Some (AssertionError ''Reverse strand?''))" for s
    using assms(1) by (simp add: loop_body_reversed [OF assms(2)])
  show "main_loop bi opts (extract_candidates bi opts (line # rest)) st =
           (st\<lparr>count := count st + 1,
               stdout := stdout st @ [print_candidate (idn, start, end', length')]\<rparr>,
            Some (AssertionError ''Reverse strand?''))"
    by (rule m)
  assume b: "main_loop bi opts (extract_candidates bi opts before) init_state = (st', None)"
  have e: "stderr st' = []"
    using main_loop_stderr [of bi opts "extract_candidates bi opts before" init_state] b
    by (simp add: init_state_def)
  have f: "find_and_extend bi opts (before @ line # rest) =
           (st'\<lparr>count := count st' + 1,
               stdout := stdout st' @ [print_candidate (idn, start, end', length')]\<rparr>,
            Some (AssertionError ''Reverse strand?''))"
    using b by (simp add: find_and_extend_def main_loop_append m del: extract_candidates.simps)
  show "snd (find_and_extend bi opts (before @ line # rest)) =
           Some (AssertionError ''Reverse strand?'')"
    by (simp add: f)
  show "requests (fst (find_and_extend bi opts (before @ line # rest))) = requests st'"
    by (simp add: f)
  show "stderr (fst (find_and_extend bi opts (before @ line # rest))) = []"
    by (simp add: f e)
qed

theorem reversed_record_halts_witness:
  "candidate_of_line example_builtins default_options
     (tsv [''Q1'', ''S1'', ''96.0'', ''98.0'', ''20'', ''10'', ''1000''])
     = Yielded (''S1'', 20, 10, 1000)
   \<and> \<not> (1 \<le> (20::int) \<and> (20::int) < 10 \<and> (10::int) \<le> 1000)
   \<and> main_loop example_builtins default_options
        (extract_candidates example_builtins default_options [tsv [''Q1'', ''S1'', ''96.0'', ''98.0'', ''10'', ''20'', ''1000'']]) init_state
      = (\<lparr>count = 1, stdout = [''S1 10 20 1000'' @ [NL]], requests = [(''S1'', 1, 70)],
          stderr = []\<rparr>, None)
   \<and> snd (find_and_extend example_builtins default_options
        ([tsv [''Q1'', ''S1'', ''96.0'', ''98.0'', ''10'', ''20'', ''1000'']] @ tsv [''Q1'', ''S1'', ''96.0'', ''98.0'', ''20'', ''10'', ''1000''] # [tsv [''Q1'', ''S1'', ''96.0'', ''98.0'', ''10'', ''20'', ''1000'']]))
      = Some (AssertionError ''Reverse strand?'')
   \<and> requests (fst (find_and_extend example_builtins default_options
        ([tsv [''Q1'', ''S1'', ''96.0'', ''98.0'', ''10'', ''20'', ''1000'']] @ tsv [''Q1'', ''S1'', ''96.0'', ''98.0'', ''20'', ''10'', ''1000''] # [tsv [''Q1'', ''S1'', ''96.0'', ''98.0'', ''10'', ''20'', ''1000'']])))
      = [(''S1'', 1, 70)]
   \<and> stderr (fst (find_and_extend example_builtins default_options
        ([tsv [''Q1'', ''S1'', ''96.0'', ''98.0'', ''10'', ''20'', ''1000'']] @ tsv [''Q1'', ''S1'', ''96.0'', ''98.0'', ''20'', ''10'', ''1000''] # [tsv [''Q1'', ''S1'', ''96.0'', ''98.0'', ''10'', ''20'', ''1000'']])))
      = []"
proof -
  have v: "\<not> (1 \<le> (20::int) \<and> (20::int) < 10 \<and> (10::int) \<le> 1000)" by simp
  show ?thesis
    using reversed_record_halts [OF reversed_line v, of "[tsv [''Q1'', ''S1'', ''96.0'', ''98.0'', ''10'', ''20'', ''1000'']]" init_state "[tsv [''Q1'', ''S1'', ''96.0'', ''98.0'', ''10'', ''20'', ''1000'']]"
        "\<lparr>count = 1, stdout = [''S1 10 20 1000'' @ [NL]], requests = [(''S1'', 1, 70)],
          stderr = []\<rparr>"] reversed_line run_plain_line
    by simp
qed

text \<open>
  C6. A line that begins with \<^verbatim>\<open>#\<close> is skipped: it yields nothing and raises nothing,
  whatever else it holds, and the run on a report is the run on the report without the
  line, so the count and every other output are the same.
\<close>

theorem comment_line_skipped:
  assumes "startswith line ''#''"
  shows "candidate_of_line bi opts line = Continue
    \<and> extract_candidates bi opts (before @ line # rest) = extract_candidates bi opts (before @ rest)
    \<and> main_loop bi opts (extract_candidates bi opts (before @ line # rest)) st
           = main_loop bi opts (extract_candidates bi opts (before @ rest)) st
    \<and> find_and_extend bi opts (before @ line # rest) = find_and_extend bi opts (before @ rest)"
proof -
  have c: "candidate_of_line bi opts line = Continue"
    using assms by (simp add: candidate_of_line_def)
  show ?thesis
    by (simp add: c find_and_extend_def extract_skip [OF c])
qed

theorem comment_line_skipped_witness:
  "startswith (''# BLASTN 2.5.0+'' @ [NL]) ''#''
   \<and> candidate_of_line example_builtins default_options (''# BLASTN 2.5.0+'' @ [NL]) = Continue
   \<and> find_and_extend example_builtins default_options
        ([tsv [''Q1'', ''S1'', ''96.0'', ''98.0'', ''10'', ''20'', ''1000'']] @ (''# BLASTN 2.5.0+'' @ [NL]) # [tsv [''Q1'', ''S1'', ''96.0'', ''98.0'', ''10'', ''20'', ''1000'']])
      = find_and_extend example_builtins default_options ([tsv [''Q1'', ''S1'', ''96.0'', ''98.0'', ''10'', ''20'', ''1000'']] @ [tsv [''Q1'', ''S1'', ''96.0'', ''98.0'', ''10'', ''20'', ''1000'']])"
proof -
  have a: "startswith (''# BLASTN 2.5.0+'' @ [NL]) ''#''"
    by (simp add: startswith_def)
  show ?thesis
    using comment_line_skipped [OF a, of example_builtins default_options "[tsv [''Q1'', ''S1'', ''96.0'', ''98.0'', ''10'', ''20'', ''1000'']]" "[tsv [''Q1'', ''S1'', ''96.0'', ''98.0'', ''10'', ''20'', ''1000'']]"] a
    by simp
qed

text \<open>
  C9. For an accepted record with \<open>1 \<le> start < end \<le> length\<close> and extensions that are
  not negative, the window contains the match:
  \<open>requestedStart \<le> start\<close> and \<open>end \<le> requestedEnd\<close>.
\<close>

theorem window_contains_match:
  assumes "candidate_of_line bi opts line = Yielded (idn, start, end', length')"
    and "1 \<le> start" and "start < end'" and "end' \<le> length'"
    and "0 \<le> up_extend opts" and "0 \<le> down_extend opts"
  shows "\<exists>req_start req_end.
           requests (fst (main_loop bi opts (extract_candidates bi opts [line]) st))
             = requests st @ [(idn, req_start, req_end)]
           \<and> req_start \<le> start \<and> end' \<le> req_end"
proof (intro exI conjI)
  show "requests (fst (main_loop bi opts (extract_candidates bi opts [line]) st))
          = requests st @ [(idn, max 1 (start - up_extend opts),
                            min (end' + down_extend opts) length')]"
    unfolding main_loop_single_yield [OF assms(1)] loop_body_ok(1) [OF assms(2-4)] by simp
  show "max 1 (start - up_extend opts) \<le> start"
    using assms(2,5) by simp
  show "end' \<le> min (end' + down_extend opts) length'"
    using assms(4,6) by simp
qed

theorem window_contains_match_witness:
  "candidate_of_line example_builtins default_options (tsv [''Q1'', ''S1'', ''96.0'', ''98.0'', ''10'', ''20'', ''1000'']) = Yielded (''S1'', 10, 20, 1000)
   \<and> 0 \<le> up_extend default_options \<and> 0 \<le> down_extend default_options
   \<and> (\<exists>req_start req_end.
         requests (fst (main_loop example_builtins default_options
                     (extract_candidates example_builtins default_options [tsv [''Q1'', ''S1'', ''96.0'', ''98.0'', ''10'', ''20'', ''1000'']]) init_state))
           = requests init_state @ [(''S1'', req_start, req_end)]
         \<and> req_start \<le> 10 \<and> 20 \<le> req_end)"
proof -
  have u: "0 \<le> up_extend default_options" "0 \<le> down_extend default_options"
    by (simp_all add: default_options_def)
  have v: "1 \<le> (10::int)" "(10::int) < 20" "(20::int) \<le> 1000"
    by simp_all
  show ?thesis
    using window_contains_match [OF plain_line v u, of init_state] plain_line u by blast
qed

text \<open>
  C7. When the report is processed to the end without a fatal error, the number written
  to standard error in \<^verbatim>\<open>%i candidates\<close> is the number of lines of the report that
  the generator yielded (the records that passed the filter), which is also the number of
  \<^verbatim>\<open>blastdbcmd\<close> requests made.
\<close>

theorem count_reported:
  assumes "find_and_extend bi opts tabular = (st, None)"
  shows "stderr st = [str_nat (length (filter (yields bi opts) tabular)) @ '' candidates'' @ [NL]]
       \<and> length (requests st) = length (filter (yields bi opts) tabular)
       \<and> count st = length (filter (yields bi opts) tabular)"
proof -
  obtain s r where m: "main_loop bi opts (extract_candidates bi opts tabular) init_state = (s, r)"
    by (cases "main_loop bi opts (extract_candidates bi opts tabular) init_state")
  with assms have r: "r = None"
    and st: "st = s\<lparr>stderr := stderr s @ [str_nat (count s) @ '' candidates'' @ [NL]]\<rparr>"
    by (auto simp: find_and_extend_def split: option.splits)
  have e: "stderr s = []"
    using main_loop_stderr [of bi opts "extract_candidates bi opts tabular" init_state] m
    by (simp add: init_state_def)
  from main_loop_counts [OF m [unfolded r]]
  have "count s = length (filter (yields bi opts) tabular)"
    and "length (requests s) = length (filter (yields bi opts) tabular)"
    by (simp_all add: init_state_def)
  then show ?thesis by (simp add: st e)
qed

theorem count_reported_witness:
  "find_and_extend example_builtins default_options [(''# BLASTN 2.5.0+'' @ [NL]), tsv [''Q1'', ''S1'', ''96.0'', ''98.0'', ''10'', ''20'', ''1000''], tsv [''Q1'', ''S1'', ''90.0'', ''98.0'', ''20'', ''10'', ''1000'']]
   = (\<lparr>count = 1, stdout = [''S1 10 20 1000'' @ [NL]], requests = [(''S1'', 1, 70)],
       stderr = [''1 candidates'' @ [NL]]\<rparr>, None)
   \<and> [''1 candidates'' @ [NL]]
      = [str_nat (length (filter (yields example_builtins default_options) [(''# BLASTN 2.5.0+'' @ [NL]), tsv [''Q1'', ''S1'', ''96.0'', ''98.0'', ''10'', ''20'', ''1000''], tsv [''Q1'', ''S1'', ''90.0'', ''98.0'', ''20'', ''10'', ''1000'']]))
         @ '' candidates'' @ [NL]]
   \<and> length (filter (yields example_builtins default_options) [(''# BLASTN 2.5.0+'' @ [NL]), tsv [''Q1'', ''S1'', ''96.0'', ''98.0'', ''10'', ''20'', ''1000''], tsv [''Q1'', ''S1'', ''90.0'', ''98.0'', ''20'', ''10'', ''1000'']]) = 1"
  using count_reported [OF run_example_report] run_example_report by simp

text \<open>
  C8. The windows a pass produces depend on the lines and the options only, not on the
  state in which the pass starts: two passes over the same lines, from any two states (the
  second may start where the first ended), end in the same way and add the same sequence
  of windows. A pass that reaches the end adds the windows of the yielded lines in the
  order of the lines.
\<close>

theorem rerun_same_windows:
  "(main_loop bi opts (extract_candidates bi opts tabular) sa = (sa', ra)
      \<and> main_loop bi opts (extract_candidates bi opts tabular) sb = (sb', rb)
    \<longrightarrow> rb = ra
        \<and> drop (length (requests sb)) (requests sb') = drop (length (requests sa)) (requests sa'))
   \<and> (main_loop bi opts (extract_candidates bi opts tabular) sa = (sa', None)
    \<longrightarrow> requests sa' = requests sa @ List.map_filter (line_window bi opts) tabular)"
proof (intro conjI impI)
  obtain ws r where i: "\<And>s. requests (fst (main_loop bi opts (extract_candidates bi opts tabular) s))
        = requests s @ ws"
      "\<And>s. snd (main_loop bi opts (extract_candidates bi opts tabular) s) = r"
    using main_loop_indep [of bi opts "extract_candidates bi opts tabular"] by blast
  assume a: "main_loop bi opts (extract_candidates bi opts tabular) sa = (sa', ra)
      \<and> main_loop bi opts (extract_candidates bi opts tabular) sb = (sb', rb)"
  show "rb = ra" using a i(2) [of sa] i(2) [of sb] by simp
  show "drop (length (requests sb)) (requests sb') = drop (length (requests sa)) (requests sa')"
    using a i(1) [of sa] i(1) [of sb] by simp
next
  assume "main_loop bi opts (extract_candidates bi opts tabular) sa = (sa', None)"
  then show "requests sa' = requests sa @ List.map_filter (line_window bi opts) tabular"
    by (rule main_loop_windows)
qed

theorem rerun_same_windows_witness:
  "main_loop example_builtins default_options
     (extract_candidates example_builtins default_options [tsv [''Q1'', ''S1'', ''96.0'', ''98.0'', ''10'', ''20'', ''1000'']]) init_state
   = (\<lparr>count = 1, stdout = [''S1 10 20 1000'' @ [NL]], requests = [(''S1'', 1, 70)],
       stderr = []\<rparr>, None)
   \<and> main_loop example_builtins default_options
       (extract_candidates example_builtins default_options [tsv [''Q1'', ''S1'', ''96.0'', ''98.0'', ''10'', ''20'', ''1000'']])
       \<lparr>count = 1, stdout = [''S1 10 20 1000'' @ [NL]], requests = [(''S1'', 1, 70)],
        stderr = []\<rparr>
     = (\<lparr>count = 2, stdout = [''S1 10 20 1000'' @ [NL], ''S1 10 20 1000'' @ [NL]],
         requests = [(''S1'', 1, 70), (''S1'', 1, 70)], stderr = []\<rparr>, None)
   \<and> drop 1 [(''S1'', 1 :: int, 70 :: int), (''S1'', 1, 70)] = drop 0 [(''S1'', 1, 70)]
   \<and> [(''S1'', 1, 70)] = List.map_filter (line_window example_builtins default_options) [tsv [''Q1'', ''S1'', ''96.0'', ''98.0'', ''10'', ''20'', ''1000'']]"
proof -
  let ?s1 = "\<lparr>count = 1, stdout = [''S1 10 20 1000'' @ [NL]], requests = [(''S1'', 1, 70)],
       stderr = []\<rparr>"
  let ?s2 = "\<lparr>count = 2, stdout = [''S1 10 20 1000'' @ [NL], ''S1 10 20 1000'' @ [NL]],
         requests = [(''S1'', 1, 70), (''S1'', 1, 70)], stderr = []\<rparr>"
  have b: "main_loop example_builtins default_options
       (extract_candidates example_builtins default_options [tsv [''Q1'', ''S1'', ''96.0'', ''98.0'', ''10'', ''20'', ''1000'']]) ?s1 = (?s2, None)"
    unfolding main_loop_single_yield [OF plain_line] by (simp add: loop_body_plain)
  show ?thesis
    using rerun_same_windows [of example_builtins default_options "[tsv [''Q1'', ''S1'', ''96.0'', ''98.0'', ''10'', ''20'', ''1000'']]"
        init_state ?s1 None ?s1 ?s2 None] run_plain_line b
    by (simp add: init_state_def)
qed

text \<open>
  C10. The assertion on the coordinates stands in the consumer, after the generator's
  filter, so it is checked only for records that pass the identity and coverage tests: a
  record that fails either test is dropped without any check of its coordinates, reversed
  or not. The run is a single pass in which every error is terminal; it ends with the
  AssertionError if and only if some filter-passing record that violates the invariant
  is processed, that is, a record of the report before which no line ended the run.
\<close>

theorem invariant_checked_after_filter:
  "(parseLine bi line = Some r
      \<and> (float_lt (percentIdentity r) (min_identity opts)
         \<or> float_lt (queryCoverage r) (min_coverage opts))
    \<longrightarrow> candidate_of_line bi opts line = Continue
        \<and> main_loop bi opts (extract_candidates bi opts (line # rest)) st
            = main_loop bi opts (extract_candidates bi opts rest) st)
   \<and> ((snd (find_and_extend bi opts tabular) = Some (AssertionError ''Reverse strand?''))
       = (\<exists>before line rest idn start end' length'.
            tabular = before @ line # rest
            \<and> snd (main_loop bi opts (extract_candidates bi opts before) init_state) = None
            \<and> candidate_of_line bi opts line = Yielded (idn, start, end', length')
            \<and> \<not> (1 \<le> start \<and> start < end' \<and> end' \<le> length')))"
proof (intro conjI impI)
  assume a: "parseLine bi line = Some r
      \<and> (float_lt (percentIdentity r) (min_identity opts)
         \<or> float_lt (queryCoverage r) (min_coverage opts))"
  then have p: "parseLine bi line = Some r" by simp
  show c: "candidate_of_line bi opts line = Continue"
    using a by (auto simp: candidate_of_parsed [OF p])
  show "main_loop bi opts (extract_candidates bi opts (line # rest)) st
            = main_loop bi opts (extract_candidates bi opts rest) st"
    by (simp add: c)
next
  let ?A = "Some (AssertionError ''Reverse strand?'')"
  show "(snd (find_and_extend bi opts tabular) = ?A)
       = (\<exists>before line rest idn start end' length'.
            tabular = before @ line # rest
            \<and> snd (main_loop bi opts (extract_candidates bi opts before) init_state) = None
            \<and> candidate_of_line bi opts line = Yielded (idn, start, end', length')
            \<and> \<not> (1 \<le> start \<and> start < end' \<and> end' \<le> length'))"
    (is "?L = ?R")
  proof
    assume ?L
    then have "snd (main_loop bi opts (extract_candidates bi opts tabular) init_state) = ?A"
      by (simp add: find_and_extend_fields(4))
    from first_fatal_line [OF this] obtain before line rest st' where
      b: "tabular = before @ line # rest"
        "main_loop bi opts (extract_candidates bi opts before) init_state = (st', None)"
        "snd (main_loop bi opts (extract_candidates bi opts [line]) st') = ?A"
      by blast
    from b(3) obtain idn start end' length' where
      "candidate_of_line bi opts line = Yielded (idn, start, end', length')"
      "\<not> (1 \<le> start \<and> start < end' \<and> end' \<le> length')"
      unfolding single_line_asserts by blast
    moreover have "snd (main_loop bi opts (extract_candidates bi opts before) init_state) = None"
      using b(2) by simp
    ultimately show ?R using b(1) by blast
  next
    assume ?R
    then obtain before line rest idn start end' length' where
      b: "tabular = before @ line # rest"
        "snd (main_loop bi opts (extract_candidates bi opts before) init_state) = None"
        "candidate_of_line bi opts line = Yielded (idn, start, end', length')"
        "\<not> (1 \<le> start \<and> start < end' \<and> end' \<le> length')"
      by blast
    obtain st' where s: "main_loop bi opts (extract_candidates bi opts before) init_state = (st', None)"
      using b(2) by (cases "main_loop bi opts (extract_candidates bi opts before) init_state") simp
    have "snd (main_loop bi opts (extract_candidates bi opts (line # rest)) st') = ?A"
      using b(3) by (simp add: loop_body_reversed [OF b(4)])
    then have "snd (main_loop bi opts (extract_candidates bi opts tabular) init_state) = ?A"
      unfolding b(1) main_loop_append s by simp
    then show ?L by (simp add: find_and_extend_fields(4))
  qed
qed

theorem invariant_checked_after_filter_witness:
  "parseLine example_builtins (tsv [''Q1'', ''S1'', ''90.0'', ''98.0'', ''20'', ''10'', ''1000''])
     = Some \<lparr>queryId = ''Q1'', matchId = ''S1'', percentIdentity = Finite 90,
             queryCoverage = Finite 98, subjectStart = 20, subjectEnd = 10,
             subjectLength = 1000\<rparr>
   \<and> float_lt (Finite 90) (min_identity default_options)
   \<and> candidate_of_line example_builtins default_options (tsv [''Q1'', ''S1'', ''90.0'', ''98.0'', ''20'', ''10'', ''1000'']) = Continue
   \<and> candidate_of_line example_builtins default_options (tsv [''Q1'', ''S1'', ''96.0'', ''98.0'', ''20'', ''10'', ''1000'']) = Yielded (''S1'', 20, 10, 1000)
   \<and> snd (find_and_extend example_builtins default_options ([tsv [''Q1'', ''S1'', ''96.0'', ''98.0'', ''10'', ''20'', ''1000'']] @ tsv [''Q1'', ''S1'', ''96.0'', ''98.0'', ''20'', ''10'', ''1000''] # [tsv [''Q1'', ''S1'', ''96.0'', ''98.0'', ''10'', ''20'', ''1000'']]))
      = Some (AssertionError ''Reverse strand?'')"
proof -
  let ?low = "\<lparr>queryId = ''Q1'', matchId = ''S1'', percentIdentity = Finite 90,
             queryCoverage = Finite 98, subjectStart = 20, subjectEnd = 10,
             subjectLength = 1000\<rparr>"
  note t = invariant_checked_after_filter [of example_builtins "tsv [''Q1'', ''S1'', ''90.0'', ''98.0'', ''20'', ''10'', ''1000'']" ?low default_options
      "[]" init_state "[tsv [''Q1'', ''S1'', ''96.0'', ''98.0'', ''10'', ''20'', ''1000'']] @ tsv [''Q1'', ''S1'', ''96.0'', ''98.0'', ''20'', ''10'', ''1000''] # [tsv [''Q1'', ''S1'', ''96.0'', ''98.0'', ''10'', ''20'', ''1000'']]"]
  have f: "float_lt (Finite 90) (min_identity default_options)"
    by (simp add: default_options_def)
  have c: "candidate_of_line example_builtins default_options (tsv [''Q1'', ''S1'', ''90.0'', ''98.0'', ''20'', ''10'', ''1000'']) = Continue"
    using t parse_low_line f by simp
  have "\<exists>before line rest idn start end' length'.
          [tsv [''Q1'', ''S1'', ''96.0'', ''98.0'', ''10'', ''20'', ''1000'']] @ tsv [''Q1'', ''S1'', ''96.0'', ''98.0'', ''20'', ''10'', ''1000''] # [tsv [''Q1'', ''S1'', ''96.0'', ''98.0'', ''10'', ''20'', ''1000'']] = before @ line # rest
          \<and> snd (main_loop example_builtins default_options
                 (extract_candidates example_builtins default_options before) init_state) = None
          \<and> candidate_of_line example_builtins default_options line
              = Yielded (idn, start, end', length')
          \<and> \<not> (1 \<le> start \<and> start < end' \<and> end' \<le> length')"
    using reversed_line run_plain_line
    by (intro exI [of _ "[tsv [''Q1'', ''S1'', ''96.0'', ''98.0'', ''10'', ''20'', ''1000'']]"] exI [of _ "tsv [''Q1'', ''S1'', ''96.0'', ''98.0'', ''20'', ''10'', ''1000'']"] exI [of _ "[tsv [''Q1'', ''S1'', ''96.0'', ''98.0'', ''10'', ''20'', ''1000'']]"]
          exI [of _ "''S1''"] exI [of _ 20] exI [of _ 10] exI [of _ 1000]) simp
  then have "snd (find_and_extend example_builtins default_options ([tsv [''Q1'', ''S1'', ''96.0'', ''98.0'', ''10'', ''20'', ''1000'']] @ tsv [''Q1'', ''S1'', ''96.0'', ''98.0'', ''20'', ''10'', ''1000''] # [tsv [''Q1'', ''S1'', ''96.0'', ''98.0'', ''10'', ''20'', ''1000'']]))
      = Some (AssertionError ''Reverse strand?'')"
    using t by blast
  then show ?thesis
    using parse_low_line f c reversed_line by simp
qed

end
